theory Spec2Isabelle
  imports Main
begin

section \<open>Data model\<close>

text \<open>
  The program is \<^verbatim>\<open>simple_chess_game.py\<close>.  A position is a Python tuple of two
  unbounded integers (row, column), a move a pair of positions, a board a tuple of row
  strings, a piece a one-character string.  Python raises where HOL would return an
  unspecified value, so every function that can raise returns \<open>error + 'a\<close>.
\<close>

datatype error =
    OutOfBounds  \<comment> \<open>the support module's checked failure for an off-grid position\<close>
  | IndexError   \<comment> \<open>Python's own exception for an unchecked subscript\<close>

type_synonym position = "int \<times> int"
type_synonym move = "position \<times> position"
type_synonym piece = string
type_synonym board = "string list"
type_synonym castling_info = "bool \<times> bool \<times> bool"

definition bind_result :: "error + 'a \<Rightarrow> ('a \<Rightarrow> error + 'b) \<Rightarrow> error + 'b" where
  "bind_result r f = (case r of Inl e \<Rightarrow> Inl e | Inr v \<Rightarrow> f v)"

text \<open>Python's short-circuit \<^verbatim>\<open>a and b\<close> where either operand may raise.\<close>

definition py_and :: "error + bool \<Rightarrow> error + bool \<Rightarrow> error + bool" where
  "py_and a b = bind_result a (\<lambda>x. if x then b else Inr False)"

text \<open>
  Python's subscript \<^verbatim>\<open>xs[i]\<close>: an index in \<open>[-len, 0)\<close> counts from the end, an index
  outside \<open>[-len, len)\<close> raises IndexError.
\<close>

definition py_getitem :: "'a list \<Rightarrow> int \<Rightarrow> error + 'a" where
  "py_getitem xs i =
     (if 0 \<le> i \<and> i < int (length xs) then Inr (xs ! nat i)
      else if - int (length xs) \<le> i \<and> i < 0 then Inr (xs ! nat (int (length xs) + i))
      else Inl IndexError)"

text \<open>Python's slices \<^verbatim>\<open>xs[:j]\<close> and \<^verbatim>\<open>xs[i:]\<close>; they clamp and never raise.\<close>

definition slice_upto :: "'a list \<Rightarrow> int \<Rightarrow> 'a list" where
  "slice_upto xs j = (if j < 0 then take (nat (int (length xs) + j)) xs else take (nat j) xs)"

definition slice_from :: "'a list \<Rightarrow> int \<Rightarrow> 'a list" where
  "slice_from xs i = (if i < 0 then drop (nat (int (length xs) + i)) xs else drop (nat i) xs)"

subsection \<open>Names imported from the support module\<close>

text \<open>
  Modelled from the spec: the module \<^verbatim>\<open>chess_game_support\<close> is imported by the program
  and is not among the sources.  Its constants are fixed by the program itself: the literal
  board of \<^verbatim>\<open>initial_state\<close> (black lower case on rows 0 and 1, white upper case on rows 6
  and 7), the \<^verbatim>\<open>'.'\<close> written by \<^verbatim>\<open>clear_position\<close>, and the eight rows of the grid.
\<close>

definition BOARD_SIZE :: nat where "BOARD_SIZE = 8"
definition EMPTY :: piece where "EMPTY = ''.''"
definition WHITE_PAWN :: piece where "WHITE_PAWN = ''P''"
definition BLACK_PAWN :: piece where "BLACK_PAWN = ''p''"
definition WHITE_KING :: piece where "WHITE_KING = ''K''"
definition BLACK_KING :: piece where "BLACK_KING = ''k''"
definition WHITE_ROOK :: piece where "WHITE_ROOK = ''R''"
definition BLACK_ROOK :: piece where "BLACK_ROOK = ''r''"
definition WHITE_PIECES :: "piece list" where
  "WHITE_PIECES = [''P'', ''N'', ''B'', ''R'', ''Q'', ''K'']"
definition BLACK_PIECES :: "piece list" where
  "BLACK_PIECES = [''p'', ''n'', ''b'', ''r'', ''q'', ''k'']"

text \<open>
  Modelled from the spec: \<^verbatim>\<open>out_of_bounds\<close> is the negation of the spec's
  \<open>isInBounds\<close> (4.1), a position being in bounds when both coordinates are in \<open>[0, 8)\<close>.
\<close>

definition out_of_bounds :: "position \<Rightarrow> bool" where
  "out_of_bounds p =
     (\<not> (0 \<le> fst p \<and> fst p < int BOARD_SIZE \<and> 0 \<le> snd p \<and> snd p < int BOARD_SIZE))"

text \<open>
  Modelled from the spec: \<^verbatim>\<open>piece_at_position\<close> is the spec's \<open>pieceAt\<close> (4.1), which
  fails with OutOfBounds when the position is off the grid and otherwise reads the cell.
\<close>

definition piece_at_position :: "position \<Rightarrow> board \<Rightarrow> error + piece" where
  "piece_at_position p b =
     (if out_of_bounds p then Inl OutOfBounds
      else bind_result (py_getitem b (fst p)) (\<lambda>row.
           bind_result (py_getitem row (snd p)) (\<lambda>ch. Inr [ch])))"

text \<open>
  Modelled from the spec: \<^verbatim>\<open>get_possible_moves\<close> (4.2, the pseudo-legal destinations of
  the piece on a square) and \<^verbatim>\<open>is_in_check\<close> (4.3) are functions of the support module.
  The program only calls them, so its functions take them as a parameter, and what is
  proved of the program holds for every such pair of pure functions.
\<close>

record chess_game_support =
  get_possible_moves :: "position \<Rightarrow> board \<Rightarrow> position set"
  is_in_check :: "board \<Rightarrow> bool \<Rightarrow> bool"

section \<open>The program\<close>

definition initial_state :: board where
  "initial_state =
     [''rnbqkbnr'', ''pppppppp'', ''........'', ''........'',
      ''........'', ''........'', ''PPPPPPPP'', ''RNBQKBNR'']"

text \<open>
  \<^verbatim>\<open>change_position\<close>: the loop over \<^verbatim>\<open>range(BOARD_SIZE)\<close> appends either the spliced row
  or the old row; \<^verbatim>\<open>board[row_num]\<close> raises when the board has fewer rows.
\<close>

fun change_position_rows :: "board \<Rightarrow> position \<Rightarrow> string \<Rightarrow> int list \<Rightarrow> error + board" where
  "change_position_rows board position character [] = Inr []"
| "change_position_rows board position character (row_num # rest) =
     bind_result (py_getitem board row_num) (\<lambda>old.
     bind_result (change_position_rows board position character rest) (\<lambda>new_board.
       Inr ((if row_num = fst position
             then slice_upto old (snd position) @ character @ slice_from old (snd position + 1)
             else old) # new_board)))"

definition change_position :: "board \<Rightarrow> position \<Rightarrow> string \<Rightarrow> error + board" where
  "change_position board position character =
     change_position_rows board position character (map int [0..<BOARD_SIZE])"

definition clear_position :: "board \<Rightarrow> position \<Rightarrow> error + board" where
  "clear_position board position = change_position board position ''.''"

text \<open>\<^verbatim>\<open>update_board\<close> reads \<^verbatim>\<open>board[row][col]\<close> itself, with no bounds check.\<close>

definition update_board :: "board \<Rightarrow> move \<Rightarrow> error + board" where
  "update_board board move =
     (case fst move of (row, col) \<Rightarrow>
        bind_result (py_getitem board row) (\<lambda>r.
        bind_result (py_getitem r col) (\<lambda>piece.
        bind_result (clear_position board (fst move)) (\<lambda>cleared.
          change_position cleared (snd move) [piece]))))"

definition is_current_players_piece :: "piece \<Rightarrow> bool \<Rightarrow> bool" where
  "is_current_players_piece piece whites_turn =
     (if whites_turn then piece \<in> set WHITE_PIECES else piece \<in> set BLACK_PIECES)"

text \<open>
  \<^verbatim>\<open>is_move_valid\<close>: the conjuncts are evaluated left to right and the first false one
  returns False; a conjunct that raises ends the call with that exception.
\<close>

definition is_move_valid :: "chess_game_support \<Rightarrow> move \<Rightarrow> board \<Rightarrow> bool \<Rightarrow> error + bool" where
  "is_move_valid S move board whites_turn =
     (if \<not> (out_of_bounds (fst move) \<and> out_of_bounds (snd move)) \<and> fst move \<noteq> snd move
      then
        bind_result (piece_at_position (fst move) board) (\<lambda>mover.
          if is_current_players_piece mover whites_turn then
            bind_result (piece_at_position (snd move) board) (\<lambda>target.
              if target = EMPTY \<or> \<not> is_current_players_piece target whites_turn then
                if snd move \<in> get_possible_moves S (fst move) board then
                  bind_result (update_board board move) (\<lambda>moved.
                    Inr (\<not> is_in_check S moved whites_turn))
                else Inr False
              else Inr False)
          else Inr False)
      else Inr False)"

text \<open>
  \<^verbatim>\<open>is_valid_castle_attempt\<close>.  The loop \<^verbatim>\<open>for i in range(squares)\<close> moves the king
  \<open>i\<close> columns towards the rook and returns False at the first simulated board on which
  the side is in check.  \<^verbatim>\<open>is EMPTY\<close> compares one-character strings, which CPython
  shares, so it is modelled as equality.
\<close>

definition legal_castle_move :: "move list" where
  "legal_castle_move =
     [((7, 4), (7, 6)), ((7, 4), (7, 2)), ((0, 4), (0, 6)), ((0, 4), (0, 2))]"

fun castle_loop ::
  "chess_game_support \<Rightarrow> board \<Rightarrow> bool \<Rightarrow> position \<Rightarrow> int \<Rightarrow> nat list \<Rightarrow> error + bool" where
  "castle_loop S board whites_turn from_position direction [] = Inr True"
| "castle_loop S board whites_turn from_position direction (i # rest) =
     bind_result
       (update_board board
          (from_position, (fst from_position, snd from_position + int i * direction)))
       (\<lambda>simulated.
          if is_in_check S simulated whites_turn then Inr False
          else castle_loop S board whites_turn from_position direction rest)"

definition is_empty_at :: "position \<Rightarrow> board \<Rightarrow> error + bool" where
  "is_empty_at p board = bind_result (piece_at_position p board) (\<lambda>x. Inr (x = EMPTY))"

definition is_valid_castle_attempt ::
  "chess_game_support \<Rightarrow> move \<Rightarrow> board \<Rightarrow> bool \<Rightarrow> castling_info \<Rightarrow> error + bool" where
  "is_valid_castle_attempt S move board whites_turn castling_info =
     (let from_position = fst move;
          to_position = snd move;
          king = (if whites_turn then WHITE_KING else BLACK_KING);
          rook = (if whites_turn then WHITE_ROOK else BLACK_ROOK)
      in bind_result (piece_at_position from_position board) (\<lambda>mover.
           if mover = king \<and> move \<in> set legal_castle_move \<and> \<not> fst (snd castling_info) then
             (let (rook_position, direction, squares, rook_moved, between) =
                    (if snd from_position < snd to_position
                     then ((fst from_position, 7), 1, 4, snd (snd castling_info),
                           py_and (is_empty_at (fst from_position, snd from_position + 1) board)
                                  (is_empty_at (fst from_position, snd from_position + 2) board))
                     else ((fst from_position, 0), - 1, 5, fst castling_info,
                           py_and (is_empty_at (fst from_position, snd from_position - 1) board)
                          (py_and (is_empty_at (fst from_position, snd from_position - 2) board)
                                  (is_empty_at (fst from_position, snd from_position - 3) board))))
              in bind_result between (\<lambda>no_pieces_between.
                 bind_result (piece_at_position rook_position board) (\<lambda>corner.
                   if corner = rook \<and> \<not> rook_moved \<and> no_pieces_between
                   then castle_loop S board whites_turn from_position direction [0..<squares]
                   else Inr False)))
           else Inr False))"

definition perform_castling :: "move \<Rightarrow> board \<Rightarrow> error + board" where
  "perform_castling move board =
     (case snd move of (kings_row, kings_end_col) \<Rightarrow>
        (let rooks_move = (if kings_end_col = 6
                           then ((kings_row, 7), (kings_row, 5))
                           else ((kings_row, 0), (kings_row, 3)))
         in bind_result (update_board board move) (\<lambda>b. update_board b rooks_move)))"

definition is_valid_en_passant ::
  "move \<Rightarrow> board \<Rightarrow> bool \<Rightarrow> position option \<Rightarrow> error + bool" where
  "is_valid_en_passant move board whites_turn en_passant_position =
     (let from_position = fst move;
          to_position = snd move;
          direction = (if whites_turn then - 1 else 1);
          self_pawn = (if whites_turn then WHITE_PAWN else BLACK_PAWN);
          other_pawn = (if whites_turn then BLACK_PAWN else WHITE_PAWN);
          should_start_at_row = (if whites_turn then 3 else 4)
      in if en_passant_position \<noteq> None
            \<and> en_passant_position = Some (snd move)
            \<and> fst to_position = fst from_position + direction
            \<and> fst from_position = should_start_at_row
         then bind_result (piece_at_position from_position board) (\<lambda>mover.
                if mover = self_pawn
                then bind_result
                       (piece_at_position (fst from_position, snd to_position) board)
                       (\<lambda>passed. Inr (passed = other_pawn))
                else Inr False)
         else Inr False)"

definition perform_en_passant :: "move \<Rightarrow> board \<Rightarrow> bool \<Rightarrow> error + board" where
  "perform_en_passant move board whites_turn =
     (let other_pawn_position = (fst (fst move), snd (snd move))
      in bind_result (clear_position board other_pawn_position) (\<lambda>b. update_board b move))"

text \<open>
  \<^verbatim>\<open>update_castling_info\<close>: the loop visits the three flags in order; a flag that is
  already set is skipped (\<^verbatim>\<open>continue\<close>), an unset one is set when the move starts on the
  home square of its piece.  \<open>castling_flag\<close> is one iteration of the loop.
\<close>

definition castling_flag :: "position \<Rightarrow> position \<Rightarrow> bool \<Rightarrow> bool" where
  "castling_flag from_position home moved =
     (if moved then moved else if from_position = home then True else moved)"

definition update_castling_info :: "move \<Rightarrow> bool \<Rightarrow> castling_info \<Rightarrow> castling_info" where
  "update_castling_info move whites_turn castling_info =
     (let row = (if whites_turn then 7 else 0)
      in (castling_flag (fst move) (row, 0) (fst castling_info),
          castling_flag (fst move) (row, 4) (fst (snd castling_info)),
          castling_flag (fst move) (row, 7) (snd (snd castling_info))))"

definition update_en_passant_position ::
  "move \<Rightarrow> board \<Rightarrow> bool \<Rightarrow> error + position option" where
  "update_en_passant_position move board whites_turn =
     (let from_position = fst move;
          to_position = snd move;
          direction = (if whites_turn then - 1 else 1);
          pawn = (if whites_turn then WHITE_PAWN else BLACK_PAWN);
          should_at_row = (if whites_turn then 4 else 3)
      in bind_result (piece_at_position to_position board) (\<lambda>arrived.
           Inr (if arrived = pawn
                   \<and> fst to_position = should_at_row
                   \<and> fst to_position - fst from_position = 2 * direction
                then Some (fst from_position + direction, snd from_position)
                else None)))"

section \<open>The support module as the spec describes it\<close>

text \<open>
  Modelled from the spec: \<^verbatim>\<open>get_possible_moves\<close> and \<^verbatim>\<open>is_in_check\<close> of the missing
  support module, following sections 4.2 and 4.3 of the spec.  The piece letters are those
  of \<^verbatim>\<open>initial_state\<close>.  This instance is used to run the program on concrete positions;
  the general theorems do not depend on it.
\<close>

definition cell :: "board \<Rightarrow> position \<Rightarrow> piece" where
  "cell b p = (case piece_at_position p b of Inr x \<Rightarrow> x | Inl e \<Rightarrow> EMPTY)"

definition enemy_of :: "bool \<Rightarrow> piece \<Rightarrow> bool" where
  "enemy_of white x = (if white then x \<in> set BLACK_PIECES else x \<in> set WHITE_PIECES)"

definition free_or_enemy :: "bool \<Rightarrow> board \<Rightarrow> position \<Rightarrow> bool" where
  "free_or_enemy white b q =
     (\<not> out_of_bounds q \<and> (cell b q = EMPTY \<or> enemy_of white (cell b q)))"

text \<open>A ray stops at the first occupied square and includes it only if it is an enemy.\<close>

definition ray :: "bool \<Rightarrow> board \<Rightarrow> position \<Rightarrow> int \<times> int \<Rightarrow> position list" where
  "ray white b p d =
     (let along = takeWhile (\<lambda>q. \<not> out_of_bounds q)
                    (map (\<lambda>k. (fst p + int k * fst d, snd p + int k * snd d)) [1..<8]);
          free = takeWhile (\<lambda>q. cell b q = EMPTY) along
      in free @ (case drop (length free) along of
                   [] \<Rightarrow> []
                 | q # rest \<Rightarrow> if enemy_of white (cell b q) then [q] else []))"

definition steps :: "bool \<Rightarrow> board \<Rightarrow> position \<Rightarrow> (int \<times> int) list \<Rightarrow> position list" where
  "steps white b p ds =
     filter (free_or_enemy white b) (map (\<lambda>d. (fst p + fst d, snd p + snd d)) ds)"

definition orthogonal :: "(int \<times> int) list" where
  "orthogonal = [(- 1, 0), (1, 0), (0, - 1), (0, 1)]"

definition diagonal :: "(int \<times> int) list" where
  "diagonal = [(- 1, - 1), (- 1, 1), (1, - 1), (1, 1)]"

definition knight_jumps :: "(int \<times> int) list" where
  "knight_jumps =
     [(- 2, - 1), (- 2, 1), (- 1, - 2), (- 1, 2), (1, - 2), (1, 2), (2, - 1), (2, 1)]"

definition pawn_moves :: "bool \<Rightarrow> board \<Rightarrow> position \<Rightarrow> position list" where
  "pawn_moves white b p =
     (let dir = (if white then - 1 else 1);
          start = (if white then 6 else 1);
          one = (fst p + dir, snd p);
          two = (fst p + 2 * dir, snd p)
      in (if \<not> out_of_bounds one \<and> cell b one = EMPTY
          then one # (if fst p = start \<and> \<not> out_of_bounds two \<and> cell b two = EMPTY
                      then [two] else [])
          else [])
         @ filter (\<lambda>q. \<not> out_of_bounds q \<and> enemy_of white (cell b q))
             [(fst p + dir, snd p - 1), (fst p + dir, snd p + 1)])"

definition spec_possible_moves :: "position \<Rightarrow> board \<Rightarrow> position list" where
  "spec_possible_moves p b =
     (let x = cell b p; white = (x \<in> set WHITE_PIECES)
      in if out_of_bounds p then []
         else if x = ''P'' \<or> x = ''p'' then pawn_moves white b p
         else if x = ''N'' \<or> x = ''n'' then steps white b p knight_jumps
         else if x = ''B'' \<or> x = ''b'' then concat (map (ray white b p) diagonal)
         else if x = ''R'' \<or> x = ''r'' then concat (map (ray white b p) orthogonal)
         else if x = ''Q'' \<or> x = ''q'' then concat (map (ray white b p) (orthogonal @ diagonal))
         else if x = ''K'' \<or> x = ''k'' then steps white b p (orthogonal @ diagonal)
         else [])"

definition spec_get_possible_moves :: "position \<Rightarrow> board \<Rightarrow> position set" where
  "spec_get_possible_moves p b = set (spec_possible_moves p b)"

definition all_squares :: "position list" where
  "all_squares = concat (map (\<lambda>r. map (\<lambda>c. (int r, int c)) [0..<8]) [0..<8])"

definition spec_is_in_check :: "board \<Rightarrow> bool \<Rightarrow> bool" where
  "spec_is_in_check b white =
     list_ex (\<lambda>k. cell b k = (if white then WHITE_KING else BLACK_KING)
                 \<and> list_ex (\<lambda>p. enemy_of white (cell b p) \<and> k \<in> set (spec_possible_moves p b))
                      all_squares)
       all_squares"

definition spec_support :: chess_game_support where
  "spec_support =
     \<lparr>get_possible_moves = spec_get_possible_moves, is_in_check = spec_is_in_check\<rparr>"

section \<open>Notions used by the claims\<close>

text \<open>A well-formed board: exactly 8 rows of exactly 8 characters.\<close>

definition wf_board :: "board \<Rightarrow> bool" where
  "wf_board b = (length b = 8 \<and> list_all (\<lambda>row. length row = 8) b)"

text \<open>
  The side is not in check once its king is moved from \<open>from_position\<close> to column \<open>c\<close> of
  the same row by the ordinary move primitive.
\<close>

definition king_safe_at ::
  "chess_game_support \<Rightarrow> board \<Rightarrow> bool \<Rightarrow> position \<Rightarrow> int \<Rightarrow> bool" where
  "king_safe_at S board whites_turn from_position c =
     (case update_board board (from_position, (fst from_position, c)) of
        Inl e \<Rightarrow> False
      | Inr simulated \<Rightarrow> \<not> is_in_check S simulated whites_turn)"

text \<open>
  The preconditions of castling other than those about check (4.6): the moving piece is
  the side's king, the move is one of the four canonical castle moves, the king and the
  rook of that wing have not moved, the rook stands on its corner, and the squares
  strictly between them are empty.
\<close>

definition castle_preconditions :: "move \<Rightarrow> board \<Rightarrow> bool \<Rightarrow> castling_info \<Rightarrow> bool" where
  "castle_preconditions move board whites_turn castling_info =
     (let row = fst (fst move);
          king = (if whites_turn then WHITE_KING else BLACK_KING);
          rook = (if whites_turn then WHITE_ROOK else BLACK_ROOK)
      in piece_at_position (fst move) board = Inr king
         \<and> move \<in> set legal_castle_move
         \<and> \<not> fst (snd castling_info)
         \<and> (if snd (snd move) = 6
            then \<not> snd (snd castling_info)
                 \<and> piece_at_position (row, 7) board = Inr rook
                 \<and> piece_at_position (row, 5) board = Inr EMPTY
                 \<and> piece_at_position (row, 6) board = Inr EMPTY
            else \<not> fst castling_info
                 \<and> piece_at_position (row, 0) board = Inr rook
                 \<and> piece_at_position (row, 1) board = Inr EMPTY
                 \<and> piece_at_position (row, 2) board = Inr EMPTY
                 \<and> piece_at_position (row, 3) board = Inr EMPTY))"

text \<open>
  The spec's \<open>performCastle\<close> (4.6): the king's move by the ordinary primitive, then the
  rook of that wing to file f (column 5) for kingside, file d (column 3) for queenside.
\<close>

definition castle_rook_move :: "move \<Rightarrow> move" where
  "castle_rook_move m =
     (if m = ((7, 4), (7, 6)) then ((7, 7), (7, 5))
      else if m = ((0, 4), (0, 6)) then ((0, 7), (0, 5))
      else if m = ((7, 4), (7, 2)) then ((7, 0), (7, 3))
      else ((0, 0), (0, 3)))"

definition performCastle_spec :: "move \<Rightarrow> board \<Rightarrow> error + board" where
  "performCastle_spec m b =
     bind_result (update_board b m) (\<lambda>kings. update_board kings (castle_rook_move m))"

section \<open>Positions used as examples\<close>

text \<open>The boards after 1.e4, after 1.e4 Nf6, after 1.a4 h6 2.a5 f5, and a castling position.\<close>

definition after_e4 :: board where
  "after_e4 =
     [''rnbqkbnr'', ''pppppppp'', ''........'', ''........'',
      ''....P...'', ''........'', ''PPPP.PPP'', ''RNBQKBNR'']"

definition after_e4_Nf6 :: board where
  "after_e4_Nf6 =
     [''rnbqkb.r'', ''pppppppp'', ''.....n..'', ''........'',
      ''....P...'', ''........'', ''PPPP.PPP'', ''RNBQKBNR'']"

definition a5_f5_board :: board where
  "a5_f5_board =
     [''rnbqkbnr'', ''ppppp.p.'', ''.......p'', ''P....p..'',
      ''........'', ''........'', ''.PPPPPPP'', ''RNBQKBNR'']"

definition castle_board :: board where
  "castle_board =
     [''....k..r'', ''........'', ''........'', ''........'',
      ''........'', ''........'', ''........'', ''R...K..R'']"

section \<open>Board laws\<close>

lemma bind_result_simps [simp]:
  "bind_result (Inl e) f = Inl e"
  "bind_result (Inr v) f = f v"
  by (simp_all add: bind_result_def)

lemma py_getitem_nat:
  "i < length xs \<Longrightarrow> py_getitem xs (int i) = Inr (xs ! i)"
  by (simp add: py_getitem_def)

lemma py_getitem_in_range:
  "0 \<le> i \<Longrightarrow> i < int (length xs) \<Longrightarrow> py_getitem xs i = Inr (xs ! nat i)"
  by (simp add: py_getitem_def)

lemma change_position_rows_total:
  "\<forall>n \<in> set rows. n < length board \<Longrightarrow>
   change_position_rows board position character (map int rows) =
     Inr (map (\<lambda>n. if int n = fst position
                    then slice_upto (board ! n) (snd position) @ character
                           @ slice_from (board ! n) (snd position + 1)
                    else board ! n) rows)"
  by (induction rows) (simp_all add: py_getitem_nat)

lemma change_position_total:
  "8 \<le> length board \<Longrightarrow>
   change_position board position character =
     Inr (map (\<lambda>n. if int n = fst position
                    then slice_upto (board ! n) (snd position) @ character
                           @ slice_from (board ! n) (snd position + 1)
                    else board ! n) [0..<8])"
  unfolding change_position_def BOARD_SIZE_def
  by (rule change_position_rows_total) simp

lemma splice_in_row:
  "0 \<le> c \<Longrightarrow> nat c < length row \<Longrightarrow>
   slice_upto row c @ [ch] @ slice_from row (c + 1) = row[nat c := ch]"
  by (simp add: slice_upto_def slice_from_def upd_conv_take_nth_drop nat_add_distrib)

lemma wf_boardD:
  "wf_board b \<Longrightarrow> length b = 8"
  "wf_board b \<Longrightarrow> n < 8 \<Longrightarrow> length (b ! n) = 8"
  by (auto simp: wf_board_def list_all_length)

lemma in_boundsD:
  "\<not> out_of_bounds (r, c) \<Longrightarrow> 0 \<le> r \<and> r < 8 \<and> 0 \<le> c \<and> c < 8"
  by (simp add: out_of_bounds_def BOARD_SIZE_def)

lemma change_position_wf:
  assumes "wf_board board" "\<not> out_of_bounds (r, c)"
  shows "change_position board (r, c) [ch] = Inr (board[nat r := (board ! nat r)[nat c := ch]])"
proof -
  let ?new = "map (\<lambda>n. if int n = fst (r, c)
                    then slice_upto (board ! n) (snd (r, c)) @ [ch]
                           @ slice_from (board ! n) (snd (r, c) + 1)
                    else board ! n) [0..<8]"
  from assms(1) have len: "length board = 8" and rows: "\<And>n. n < 8 \<Longrightarrow> length (board ! n) = 8"
    by (simp_all add: wf_boardD)
  from in_boundsD[OF assms(2)] have rc: "0 \<le> r" "r < 8" "0 \<le> c" "c < 8"
    by simp_all
  have "?new = board[nat r := (board ! nat r)[nat c := ch]]"
  proof (rule nth_equalityI)
    show "length ?new = length (board[nat r := (board ! nat r)[nat c := ch]])"
      using len by simp
  next
    fix i assume "i < length ?new"
    then have i: "i < 8" by simp
    show "?new ! i = board[nat r := (board ! nat r)[nat c := ch]] ! i"
    proof (cases "int i = r")
      case True
      then have "nat r = i" by simp
      with True i rc rows[of i] len show ?thesis
        using splice_in_row[of c "board ! i" ch] by (simp del: upt_Suc)
    next
      case False
      then have "nat r \<noteq> i" using rc by auto
      with False i len show ?thesis by (simp del: upt_Suc)
    qed
  qed
  with change_position_total[of board "(r, c)" "[ch]"] len show ?thesis by simp
qed

lemma wf_board_update:
  "wf_board b \<Longrightarrow> wf_board (b[i := (b ! i)[j := ch]])"
  by (cases "i < length b") (auto simp: wf_board_def list_all_length nth_list_update)

lemma update_board_wf:
  assumes "wf_board board" "\<not> out_of_bounds (r, c)" "\<not> out_of_bounds (r', c')"
  shows "update_board board ((r, c), (r', c')) =
           Inr ((board[nat r := (board ! nat r)[nat c := CHR ''.'']])
                  [nat r' := ((board[nat r := (board ! nat r)[nat c := CHR ''.'']]) ! nat r')
                               [nat c' := board ! nat r ! nat c]])"
proof -
  from in_boundsD[OF assms(2)] have rc: "0 \<le> r" "r < 8" "0 \<le> c" "c < 8"
    by simp_all
  have row: "py_getitem board r = Inr (board ! nat r)"
    using rc wf_boardD(1)[OF assms(1)] by (simp add: py_getitem_in_range)
  have col: "py_getitem (board ! nat r) c = Inr (board ! nat r ! nat c)"
    using rc wf_boardD(2)[OF assms(1), of "nat r"] by (simp add: py_getitem_in_range)
  have cleared: "clear_position board (r, c) = Inr (board[nat r := (board ! nat r)[nat c := CHR ''.'']])"
    unfolding clear_position_def by (rule change_position_wf[OF assms(1,2)])
  show ?thesis
    unfolding update_board_def
    by (simp add: row col cleared change_position_wf[OF wf_board_update[OF assms(1)] assms(3)])
qed

lemma piece_at_position_wf:
  assumes "wf_board board" "\<not> out_of_bounds p"
  shows "piece_at_position p board = Inr [board ! nat (fst p) ! nat (snd p)]"
proof -
  from in_boundsD[of "fst p" "snd p"] assms(2)
  have rc: "0 \<le> fst p" "fst p < 8" "0 \<le> snd p" "snd p < 8" by simp_all
  have row: "py_getitem board (fst p) = Inr (board ! nat (fst p))"
    using rc wf_boardD(1)[OF assms(1)] by (simp add: py_getitem_in_range)
  have col: "py_getitem (board ! nat (fst p)) (snd p) = Inr (board ! nat (fst p) ! nat (snd p))"
    using rc wf_boardD(2)[OF assms(1), of "nat (fst p)"] by (simp add: py_getitem_in_range)
  show ?thesis
    unfolding piece_at_position_def using assms(2) by (simp add: row col)
qed

text \<open>What the bounds guard of \<^verbatim>\<open>is_move_valid\<close> does achieve.\<close>

lemma is_move_valid_both_out_of_bounds:
  "out_of_bounds (fst move) \<Longrightarrow> out_of_bounds (snd move) \<Longrightarrow>
     is_move_valid S move board whites_turn = Inr False"
  by (simp add: is_move_valid_def)

lemma is_move_valid_rejects_or_raises:
  "out_of_bounds (fst move) \<or> out_of_bounds (snd move) \<Longrightarrow>
     is_move_valid S move board whites_turn \<noteq> Inr True"
  unfolding is_move_valid_def piece_at_position_def
  by (auto simp: bind_result_def split: if_splits sum.splits)

text \<open>The castling loop, and subscripts on lists of length 8.\<close>

lemma castle_loop_safe:
  assumes "wf_board board" "\<not> out_of_bounds from_position"
  shows "\<forall>i \<in> set todo.
           \<not> out_of_bounds (fst from_position, snd from_position + int i * direction) \<Longrightarrow>
         castle_loop S board whites_turn from_position direction todo =
           Inr (\<forall>i \<in> set todo.
                  king_safe_at S board whites_turn from_position
                    (snd from_position + int i * direction))"
proof (induction todo)
  case Nil
  then show ?case by simp
next
  case (Cons i rest)
  from Cons.prems have here: "\<not> out_of_bounds (fst from_position, snd from_position + int i * direction)"
    by simp
  from update_board_wf[OF assms(1), of "fst from_position" "snd from_position"
      "fst from_position" "snd from_position + int i * direction"] assms(2) here
  obtain simulated where sim:
    "update_board board
       (from_position, (fst from_position, snd from_position + int i * direction)) = Inr simulated"
    by auto
  from Cons.prems have "\<forall>i \<in> set rest.
           \<not> out_of_bounds (fst from_position, snd from_position + int i * direction)"
    by simp
  from Cons.IH[OF this] sim show ?case
    by (simp add: king_safe_at_def)
qed

lemma range_4: "[0..<4] = [0, 1, 2, 3]"
  by code_simp

lemma range_5: "[0..<5] = [0, 1, 2, 3, 4]"
  by code_simp

lemma py_and_simps [simp]:
  "py_and (Inr True) b = b"
  "py_and (Inr False) b = Inr False"
  "py_and (Inl e) b = Inl e"
  by (simp_all add: py_and_def)

lemma castle_loop_kingside:
  assumes "wf_board board" "\<not> out_of_bounds (r, 4)"
  shows "castle_loop S board whites_turn (r, 4) 1 [0..<4] =
           Inr (list_all (king_safe_at S board whites_turn (r, 4)) [4, 5, 6, 7])"
proof -
  have "castle_loop S board whites_turn (r, 4) 1 [0, 1, 2, 3] =
          Inr (\<forall>i \<in> set [0, 1, 2, 3].
                 king_safe_at S board whites_turn (r, 4) (snd (r, 4 :: int) + int i * 1))"
    using in_boundsD[OF assms(2)]
    by (intro castle_loop_safe[OF assms]) (simp add: out_of_bounds_def BOARD_SIZE_def)
  then show ?thesis
    unfolding range_4 by (simp del: castle_loop.simps)
qed

lemma castle_loop_queenside:
  assumes "wf_board board" "\<not> out_of_bounds (r, 4)"
  shows "castle_loop S board whites_turn (r, 4) (- 1) [0..<5] =
           Inr (list_all (king_safe_at S board whites_turn (r, 4)) [4, 3, 2, 1, 0])"
proof -
  have "castle_loop S board whites_turn (r, 4) (- 1) [0, 1, 2, 3, 4] =
          Inr (\<forall>i \<in> set [0, 1, 2, 3, 4].
                 king_safe_at S board whites_turn (r, 4) (snd (r, 4 :: int) + int i * (- 1)))"
    using in_boundsD[OF assms(2)]
    by (intro castle_loop_safe[OF assms]) (simp add: out_of_bounds_def BOARD_SIZE_def)
  then show ?thesis
    unfolding range_5 by (simp del: castle_loop.simps)
qed

lemma py_getitem_len8:
  "length xs = 8 \<Longrightarrow>
   py_getitem xs i = (if - 8 \<le> i \<and> i < 8 then Inr (xs ! nat (i mod 8)) else Inl IndexError)"
proof -
  assume len: "length xs = 8"
  have neg: "nat (8 + i) = nat (i mod 8)" if "- 8 \<le> i" "i < 0"
  proof -
    from that have "i mod 8 = i + 8" by presburger
    then show ?thesis by (simp add: add.commute)
  qed
  show ?thesis
    using len neg by (auto simp: py_getitem_def)
qed

lemma change_position_any:
  assumes "wf_board board"
  shows "change_position board p character =
           Inr (if 0 \<le> fst p \<and> fst p < 8
                then board[nat (fst p) :=
                       slice_upto (board ! nat (fst p)) (snd p) @ character
                         @ slice_from (board ! nat (fst p)) (snd p + 1)]
                else board)"
proof -
  let ?row = "\<lambda>n. if int n = fst p
                    then slice_upto (board ! n) (snd p) @ character
                           @ slice_from (board ! n) (snd p + 1)
                    else board ! n"
  let ?res = "if 0 \<le> fst p \<and> fst p < 8
                then board[nat (fst p) :=
                       slice_upto (board ! nat (fst p)) (snd p) @ character
                         @ slice_from (board ! nat (fst p)) (snd p + 1)]
                else board"
  have len: "length board = 8" by (rule wf_boardD(1)[OF assms])
  have "map ?row [0..<8] = ?res"
  proof (rule nth_equalityI)
    show "length (map ?row [0..<8]) = length ?res" using len by simp
  next
    fix i assume "i < length (map ?row [0..<8])"
    then have i: "i < 8" by simp
    then have "map ?row [0..<8] ! i = ?row i" by (simp del: upt_Suc)
    also have "\<dots> = ?res ! i"
      using i len by (auto simp: nth_list_update)
    finally show "map ?row [0..<8] ! i = ?res ! i" .
  qed
  with change_position_total[of board p character] len show ?thesis by simp
qed

text \<open>
  What the loop of \<^verbatim>\<open>is_valid_castle_attempt\<close> computes: under the castling
  preconditions on a well-formed board the result is True exactly when the side is not
  in check with the king on each column from its own up to and including the rook's
  corner, which is one column (kingside) or two columns (queenside) beyond the square
  the king lands on.
\<close>

lemma castle_attempt_checks_up_to_the_rook:
  assumes "wf_board board"
    and "castle_preconditions move board whites_turn castling_info"
  shows "is_valid_castle_attempt S move board whites_turn castling_info =
           Inr (list_all (king_safe_at S board whites_turn (fst move))
                  (if snd (snd move) = 6 then [4, 5, 6, 7] else [4, 3, 2, 1, 0]))"
proof -
  from assms(2) have legal: "move \<in> set legal_castle_move"
    by (simp add: castle_preconditions_def Let_def)
  have inb: "\<not> out_of_bounds (7, 4)" "\<not> out_of_bounds (0, 4)"
    by (simp_all add: out_of_bounds_def BOARD_SIZE_def)
  note loops = castle_loop_kingside[OF assms(1) inb(1)] castle_loop_kingside[OF assms(1) inb(2)]
    castle_loop_queenside[OF assms(1) inb(1)] castle_loop_queenside[OF assms(1) inb(2)]
  from legal consider (wk) "move = ((7, 4), (7, 6))" | (wq) "move = ((7, 4), (7, 2))"
    | (bk) "move = ((0, 4), (0, 6))" | (bq) "move = ((0, 4), (0, 2))"
    by (auto simp: legal_castle_move_def)
  then show ?thesis
  proof cases
    case wk
    from assms(2) show ?thesis
      unfolding wk castle_preconditions_def is_valid_castle_attempt_def Let_def
      by (simp add: is_empty_at_def legal_castle_move_def loops del: castle_loop.simps)
  next
    case wq
    from assms(2) show ?thesis
      unfolding wq castle_preconditions_def is_valid_castle_attempt_def Let_def
      by (simp add: is_empty_at_def legal_castle_move_def loops del: castle_loop.simps)
  next
    case bk
    from assms(2) show ?thesis
      unfolding bk castle_preconditions_def is_valid_castle_attempt_def Let_def
      by (simp add: is_empty_at_def legal_castle_move_def loops del: castle_loop.simps)
  next
    case bq
    from assms(2) show ?thesis
      unfolding bq castle_preconditions_def is_valid_castle_attempt_def Let_def
      by (simp add: is_empty_at_def legal_castle_move_def loops del: castle_loop.simps)
  qed
qed

lemma castle_attempt_queenside_example:
  "wf_board castle_board
   \<and> castle_preconditions ((7, 4), (7, 2)) castle_board True (False, False, False)
   \<and> list_all (king_safe_at spec_support castle_board True (7, 4)) [4, 3, 2, 1, 0]
   \<and> is_valid_castle_attempt spec_support ((7, 4), (7, 2)) castle_board True
        (False, False, False) = Inr True"
proof -
  have wf: "wf_board castle_board" by code_simp
  have pre: "castle_preconditions ((7, 4), (7, 2)) castle_board True (False, False, False)"
    by code_simp
  have safe: "list_all (king_safe_at spec_support castle_board True (7, 4)) [4, 3, 2, 1, 0]"
    by code_simp
  from castle_attempt_checks_up_to_the_rook[OF wf pre, of spec_support] wf pre safe
  show ?thesis by simp
qed

section \<open>Claims\<close>

text \<open>
  C9.  On a well-formed 8 by 8 board, for an in-bounds position \<open>(r, c)\<close> and a
  one-character piece, \<^verbatim>\<open>change_position\<close> returns a board that holds the character at
  \<open>(r, c)\<close>, agrees with the input on every other cell, leaves every row other than \<open>r\<close>
  as it was, and \<^verbatim>\<open>clear_position\<close> is \<^verbatim>\<open>change_position\<close> with \<^verbatim>\<open>'.'\<close>.
\<close>

theorem change_position_frame:
  assumes "wf_board board" and "\<not> out_of_bounds (r, c)" and "length character = 1"
  shows "\<exists>b'. change_position board (r, c) character = Inr b'
           \<and> [b' ! nat r ! nat c] = character
           \<and> (\<forall>i<8. \<forall>j<8. (int i, int j) \<noteq> (r, c) \<longrightarrow> b' ! i ! j = board ! i ! j)
           \<and> (\<forall>i<8. int i \<noteq> r \<longrightarrow> b' ! i = board ! i)
           \<and> clear_position board (r, c) = change_position board (r, c) ''.''"
proof -
  from assms(3) obtain ch where ch: "character = [ch]"
    by (cases character) simp_all
  from in_boundsD[OF assms(2)] have rc: "0 \<le> r" "r < 8" "0 \<le> c" "c < 8"
    by simp_all
  let ?b = "board[nat r := (board ! nat r)[nat c := ch]]"
  have res: "change_position board (r, c) character = Inr ?b"
    unfolding ch by (rule change_position_wf[OF assms(1,2)])
  have len: "length board = 8" and rows: "length (board ! nat r) = 8"
    using wf_boardD[OF assms(1)] rc by simp_all
  have at: "[?b ! nat r ! nat c] = character"
    using len rows rc ch by simp
  have others: "\<forall>i<8. \<forall>j<8. (int i, int j) \<noteq> (r, c) \<longrightarrow> ?b ! i ! j = board ! i ! j"
  proof (intro allI impI)
    fix i j :: nat
    assume "i < 8" "j < 8" and ne: "(int i, int j) \<noteq> (r, c)"
    show "?b ! i ! j = board ! i ! j"
    proof (cases "i = nat r")
      case True
      with ne rc have "j \<noteq> nat c" by auto
      with True len rc show ?thesis by simp
    next
      case False
      then show ?thesis by simp
    qed
  qed
  have rows_kept: "\<forall>i<8. int i \<noteq> r \<longrightarrow> ?b ! i = board ! i"
    using rc by (auto simp: nth_list_update)
  show ?thesis
    using res at others rows_kept by (simp add: clear_position_def)
qed

theorem change_position_frame_witness:
  "wf_board initial_state \<and> \<not> out_of_bounds (4, 4) \<and> length ''Q'' = 1
   \<and> change_position initial_state (4, 4) ''Q'' =
        Inr [''rnbqkbnr'', ''pppppppp'', ''........'', ''........'',
             ''....Q...'', ''........'', ''PPPPPPPP'', ''RNBQKBNR'']
   \<and> (\<exists>b'. change_position initial_state (4, 4) ''Q'' = Inr b'
           \<and> [b' ! nat 4 ! nat 4] = ''Q''
           \<and> (\<forall>i<8. \<forall>j<8. (int i, int j) \<noteq> (4, 4) \<longrightarrow> b' ! i ! j = initial_state ! i ! j)
           \<and> (\<forall>i<8. int i \<noteq> 4 \<longrightarrow> b' ! i = initial_state ! i)
           \<and> clear_position initial_state (4, 4) = change_position initial_state (4, 4) ''.'')"
proof -
  have wf: "wf_board initial_state" by code_simp
  have inb: "\<not> out_of_bounds (4, 4)" by code_simp
  have len: "length ''Q'' = 1" by simp
  have run: "change_position initial_state (4, 4) ''Q'' =
        Inr [''rnbqkbnr'', ''pppppppp'', ''........'', ''........'',
             ''....Q...'', ''........'', ''PPPPPPPP'', ''RNBQKBNR'']" by code_simp
  from change_position_frame[OF wf inb len] wf inb len run show ?thesis by blast
qed

text \<open>
  C10.  Well-formedness is preserved: on a board of exactly 8 rows of exactly 8 characters,
  with in-bounds positions and a one-character piece, the boards returned by
  \<^verbatim>\<open>change_position\<close>, \<^verbatim>\<open>update_board\<close>, \<^verbatim>\<open>perform_en_passant\<close> and
  \<^verbatim>\<open>perform_castling\<close> are returned without an exception and again have exactly 8 rows
  of exactly 8 characters.
\<close>

theorem board_operations_preserve_wf:
  assumes "wf_board board"
    and "\<not> out_of_bounds p" and "\<not> out_of_bounds q" and "length character = 1"
  shows "(\<exists>b'. change_position board p character = Inr b' \<and> wf_board b')
       \<and> (\<exists>b'. update_board board (p, q) = Inr b' \<and> wf_board b')
       \<and> (\<exists>b'. perform_en_passant (p, q) board whites_turn = Inr b' \<and> wf_board b')
       \<and> (\<exists>b'. perform_castling (p, q) board = Inr b' \<and> wf_board b')"
proof -
  obtain r c where p: "p = (r, c)" by (cases p)
  obtain r' c' where q: "q = (r', c')" by (cases q)
  from assms(4) obtain ch where ch: "character = [ch]"
    by (cases character) simp_all
  note inp = assms(2)[unfolded p] and inq = assms(3)[unfolded q]
  have upd: "\<exists>b'. update_board b (s, t) = Inr b' \<and> wf_board b'"
    if "wf_board b" "\<not> out_of_bounds s" "\<not> out_of_bounds t" for b s t
    using update_board_wf[of b "fst s" "snd s" "fst t" "snd t"] that
    by (simp add: wf_board_update)
  have 1: "\<exists>b'. change_position board p character = Inr b' \<and> wf_board b'"
    unfolding p ch using change_position_wf[OF assms(1) inp] wf_board_update[OF assms(1)]
    by simp
  have 2: "\<exists>b'. update_board board (p, q) = Inr b' \<and> wf_board b'"
    by (rule upd[OF assms(1,2,3)])
  have other: "\<not> out_of_bounds (r, c')"
    using in_boundsD[OF inp] in_boundsD[OF inq] by (simp add: out_of_bounds_def BOARD_SIZE_def)
  have 3: "\<exists>b'. perform_en_passant (p, q) board whites_turn = Inr b' \<and> wf_board b'"
    unfolding perform_en_passant_def clear_position_def p q
    using change_position_wf[OF assms(1) other, of "CHR ''.''"]
      upd[OF wf_board_update[OF assms(1)] inp inq]
    by simp
  have rook: "\<not> out_of_bounds (r', 7)" "\<not> out_of_bounds (r', 5)"
    "\<not> out_of_bounds (r', 0)" "\<not> out_of_bounds (r', 3)"
    using in_boundsD[OF inq] by (simp_all add: out_of_bounds_def BOARD_SIZE_def)
  from 2 obtain b1 where b1: "update_board board (p, q) = Inr b1" "wf_board b1" by blast
  have 4: "\<exists>b'. perform_castling (p, q) board = Inr b' \<and> wf_board b'"
    unfolding perform_castling_def q
    using b1[unfolded q] upd[OF b1(2) rook(1,2)] upd[OF b1(2) rook(3,4)]
    by (simp add: Let_def)
  from 1 2 3 4 show ?thesis by blast
qed


theorem board_operations_preserve_wf_witness:
  "wf_board initial_state \<and> \<not> out_of_bounds (6, 4) \<and> \<not> out_of_bounds (4, 4)
   \<and> length ''Q'' = 1
   \<and> (\<exists>b'. change_position initial_state (6, 4) ''Q'' = Inr b' \<and> wf_board b')
   \<and> (\<exists>b'. update_board initial_state ((6, 4), (4, 4)) = Inr b' \<and> wf_board b')
   \<and> (\<exists>b'. perform_en_passant ((6, 4), (4, 4)) initial_state True = Inr b' \<and> wf_board b')
   \<and> (\<exists>b'. perform_castling ((6, 4), (4, 4)) initial_state = Inr b' \<and> wf_board b')"
proof -
  have wf: "wf_board initial_state" by code_simp
  have p: "\<not> out_of_bounds (6, 4)" by code_simp
  have q: "\<not> out_of_bounds (4, 4)" by code_simp
  have len: "length ''Q'' = 1" by simp
  from board_operations_preserve_wf[OF wf p q len, of True] wf p q len
  show ?thesis by blast
qed

text \<open>
  C6.  Castling rights are monotonic: each of the three flags returned by
  \<^verbatim>\<open>update_castling_info\<close> is True whenever the corresponding flag passed in is True,
  for every move and side.
\<close>
theorem castling_rights_monotonic:
  "(fst castling_info \<longrightarrow> fst (update_castling_info move whites_turn castling_info))
   \<and> (fst (snd castling_info)
        \<longrightarrow> fst (snd (update_castling_info move whites_turn castling_info)))
   \<and> (snd (snd castling_info)
        \<longrightarrow> snd (snd (update_castling_info move whites_turn castling_info)))"
  by (simp add: update_castling_info_def castling_flag_def Let_def)

theorem castling_rights_monotonic_witness:
  "fst (True, False, True) \<and> snd (snd (True, False, True))
   \<and> update_castling_info ((7, 4), (7, 5)) True (True, False, True) = (True, True, True)
   \<and> fst (update_castling_info ((7, 4), (7, 5)) True (True, False, True))
   \<and> snd (snd (update_castling_info ((7, 4), (7, 5)) True (True, False, True)))"
proof -
  have run: "update_castling_info ((7, 4), (7, 5)) True (True, False, True) = (True, True, True)"
    by (simp add: update_castling_info_def castling_flag_def)
  from castling_rights_monotonic[of "(True, False, True)" "((7, 4), (7, 5))" True] run
  show ?thesis by simp
qed

text \<open>
  C7.  \<^verbatim>\<open>update_en_passant_position\<close> returns None after every committed move (board
  well formed, destination on the board) unless the piece now on the destination is the
  mover's pawn, the destination row is 4 for white and 3 for black, and the move
  advanced exactly two rows in the mover's direction; and after the pawn move
  \<open>(6,4) \<rightarrow> (4,4)\<close> from the initial position it returns the skipped square \<open>(5,4)\<close>.
\<close>
theorem en_passant_target_cleared:
  "(wf_board board \<longrightarrow> \<not> out_of_bounds (snd move) \<longrightarrow>
      \<not> (piece_at_position (snd move) board
            = Inr (if whites_turn then WHITE_PAWN else BLACK_PAWN)
          \<and> fst (snd move) = (if whites_turn then 4 else 3)
          \<and> fst (snd move) - fst (fst move) = 2 * (if whites_turn then - 1 else 1)) \<longrightarrow>
      update_en_passant_position move board whites_turn = Inr None)
   \<and> (\<exists>b. update_board initial_state ((6, 4), (4, 4)) = Inr b
          \<and> update_en_passant_position ((6, 4), (4, 4)) b True = Inr (Some (5, 4)))"
proof -
  have cleared: "update_en_passant_position move board whites_turn = Inr None"
    if "wf_board board" "\<not> out_of_bounds (snd move)"
      "\<not> (piece_at_position (snd move) board
            = Inr (if whites_turn then WHITE_PAWN else BLACK_PAWN)
          \<and> fst (snd move) = (if whites_turn then 4 else 3)
          \<and> fst (snd move) - fst (fst move) = 2 * (if whites_turn then - 1 else 1))"
    using that(3) unfolding update_en_passant_position_def Let_def
    by (simp add: piece_at_position_wf[OF that(1,2)] split: if_splits)
  have moved: "update_board initial_state ((6, 4), (4, 4)) = Inr after_e4"
    by code_simp
  have target: "update_en_passant_position ((6, 4), (4, 4)) after_e4 True = Inr (Some (5, 4))"
    by code_simp
  from cleared moved target show ?thesis by blast
qed

theorem en_passant_target_cleared_witness:
  "wf_board after_e4_Nf6 \<and> \<not> out_of_bounds (2, 5)
   \<and> piece_at_position (2, 5) after_e4_Nf6 = Inr ''n''
   \<and> update_en_passant_position ((0, 6), (2, 5)) after_e4_Nf6 False = Inr None"
proof -
  have wf: "wf_board after_e4_Nf6" by code_simp
  have inb: "\<not> out_of_bounds (2, 5)" by code_simp
  have knight: "piece_at_position (2, 5) after_e4_Nf6 = Inr ''n''" by code_simp
  from en_passant_target_cleared[of after_e4_Nf6 "((0, 6), (2, 5))" False] wf inb knight
  show ?thesis by (simp add: BLACK_PAWN_def)
qed

text \<open>
  C8.  For each of the four canonical castle moves and every board, \<^verbatim>\<open>perform_castling\<close>
  is the king's move by \<^verbatim>\<open>update_board\<close> followed by the rook's move by the same
  primitive: from column 7 to column 5 for kingside, from column 0 to column 3 for queenside.
\<close>
theorem perform_castling_refines_spec:
  "move \<in> set legal_castle_move \<Longrightarrow> perform_castling move board = performCastle_spec move board"
  by (auto simp: legal_castle_move_def perform_castling_def performCastle_spec_def
      castle_rook_move_def)

theorem perform_castling_refines_spec_witness:
  "((7, 4), (7, 6)) \<in> set legal_castle_move
   \<and> perform_castling ((7, 4), (7, 6)) castle_board = performCastle_spec ((7, 4), (7, 6)) castle_board
   \<and> perform_castling ((7, 4), (7, 6)) castle_board =
       Inr [''....k..r'', ''........'', ''........'', ''........'',
            ''........'', ''........'', ''........'', ''R....RK.'']"
proof -
  have canonical: "((7, 4), (7, 6)) \<in> set legal_castle_move" by code_simp
  have run: "perform_castling ((7, 4), (7, 6)) castle_board =
       Inr [''....k..r'', ''........'', ''........'', ''........'',
            ''........'', ''........'', ''........'', ''R....RK.'']" by code_simp
  from perform_castling_refines_spec[OF canonical, of castle_board] canonical run
  show ?thesis by simp
qed

text \<open>
  C2.  Whenever \<^verbatim>\<open>is_move_valid\<close> returns True, the move can be applied by
  \<^verbatim>\<open>update_board\<close> and the mover is not in check on the resulting board, whatever
  functions the support module provides.
\<close>
theorem valid_move_leaves_mover_out_of_check:
  "is_move_valid S move board whites_turn = Inr True \<Longrightarrow>
     \<exists>moved. update_board board move = Inr moved \<and> \<not> is_in_check S moved whites_turn"
  unfolding is_move_valid_def
  by (auto simp: bind_result_def split: if_splits sum.splits)

theorem valid_move_leaves_mover_out_of_check_witness:
  "is_move_valid spec_support ((6, 4), (4, 4)) initial_state True = Inr True
   \<and> (\<exists>moved. update_board initial_state ((6, 4), (4, 4)) = Inr moved
          \<and> \<not> is_in_check spec_support moved True)"
proof -
  have accepted: "is_move_valid spec_support ((6, 4), (4, 4)) initial_state True = Inr True"
    by code_simp
  from valid_move_leaves_mover_out_of_check[OF accepted] accepted show ?thesis by simp
qed

text \<open>
  C1.  The claim is that one off-board endpoint is enough for \<^verbatim>\<open>is_move_valid\<close> to
  return False.  The guard of the program is \<^verbatim>\<open>not (out_of_bounds(a) and out_of_bounds(b))\<close>,
  which lets a move with exactly one off-board endpoint through to the reads of the
  board: the call below ends with the failure of \<^verbatim>\<open>piece_at_position\<close>, not with False.
\<close>
theorem is_move_valid_one_endpoint_off_board:
  "out_of_bounds (8, 0) \<and> \<not> out_of_bounds (0, 0)
   \<and> is_move_valid S ((8, 0), (0, 0)) initial_state True = Inl OutOfBounds
   \<and> is_move_valid S ((8, 0), (0, 0)) initial_state True \<noteq> Inr False"
  by (simp add: is_move_valid_def out_of_bounds_def BOARD_SIZE_def piece_at_position_def)

text \<open>
  C4.  The claim is that an accepted en passant capture moves the pawn to an adjacent
  file.  After 1.a4 h6 2.a5 f5 the program accepts the white pawn on a5 capturing en
  passant on f6, five files away: the files of origin and destination are never compared.
\<close>
theorem en_passant_accepts_distant_file:
  "is_valid_en_passant ((3, 0), (2, 5)) a5_f5_board True (Some (2, 5)) = Inr True
   \<and> \<bar>snd (snd ((3, 0), (2, 5))) - snd (fst ((3, 0), (2, 5)))\<bar> \<noteq> (1 :: int)"
  by code_simp

text \<open>
  C3.  The claim is that, under the castling preconditions, \<^verbatim>\<open>is_valid_castle_attempt\<close>
  returns True exactly when the king is not in check on the squares of its own path
  (columns 4, 5, 6 kingside; 4, 3, 2 queenside), attacks elsewhere being irrelevant.
  The program runs \<^verbatim>\<open>range(4)\<close> kingside and \<^verbatim>\<open>range(5)\<close> queenside and so also
  puts the king on the rook's corner.  With white king e1, rook h1 and a black rook on
  the open h-file the preconditions hold and the king is safe on columns 4, 5 and 6,
  yet the castle, which is legal, is refused.
\<close>

theorem castle_refused_for_attack_on_rook_square:
  "castle_preconditions ((7, 4), (7, 6)) castle_board True (False, False, False)
   \<and> king_safe_at spec_support castle_board True (7, 4) 4
   \<and> king_safe_at spec_support castle_board True (7, 4) 5
   \<and> king_safe_at spec_support castle_board True (7, 4) 6
   \<and> is_valid_castle_attempt spec_support ((7, 4), (7, 6)) castle_board True
        (False, False, False) = Inr False"
  by code_simp

text \<open>
  C5 (as amended).  \<^verbatim>\<open>change_position\<close> and \<^verbatim>\<open>update_board\<close> make no bounds check.
  On a well-formed board \<^verbatim>\<open>change_position\<close> never raises: it splices the row when the
  row number is in \<open>[0, 8)\<close> and returns the board unchanged otherwise.
  \<^verbatim>\<open>update_board\<close> raises Python's IndexError when a coordinate of the origin is outside
  \<open>[-8, 8)\<close>, and otherwise moves the piece read by Python's subscript, which for a
  negative coordinate is the square counted from the end.  \<^verbatim>\<open>is_move_valid\<close> returns
  False when both endpoints are off the board.
\<close>

theorem off_board_positions_are_not_checked:
  assumes "wf_board board"
  shows "change_position board p character =
           Inr (if 0 \<le> fst p \<and> fst p < 8
                then board[nat (fst p) :=
                       slice_upto (board ! nat (fst p)) (snd p) @ character
                         @ slice_from (board ! nat (fst p)) (snd p + 1)]
                else board)
       \<and> update_board board (p, q) =
           (if - 8 \<le> fst p \<and> fst p < 8 \<and> - 8 \<le> snd p \<and> snd p < 8
            then bind_result (clear_position board p) (\<lambda>cleared.
                   change_position cleared q [board ! nat (fst p mod 8) ! nat (snd p mod 8)])
            else Inl IndexError)
       \<and> (out_of_bounds p \<and> out_of_bounds q \<longrightarrow>
            is_move_valid S (p, q) board whites_turn = Inr False)"
proof -
  obtain r c where p: "p = (r, c)" by (cases p)
  have len: "length board = 8" by (rule wf_boardD(1)[OF assms])
  have row: "length (board ! nat (r mod 8)) = 8"
    by (rule wf_boardD(2)[OF assms]) simp
  have "update_board board (p, q) =
           (if - 8 \<le> fst p \<and> fst p < 8 \<and> - 8 \<le> snd p \<and> snd p < 8
            then bind_result (clear_position board p) (\<lambda>cleared.
                   change_position cleared q [board ! nat (fst p mod 8) ! nat (snd p mod 8)])
            else Inl IndexError)"
    unfolding update_board_def p
    by (simp add: py_getitem_len8[OF len] py_getitem_len8[OF row])
  with change_position_any[OF assms] is_move_valid_both_out_of_bounds[of "(p, q)"]
  show ?thesis by simp
qed

theorem off_board_positions_are_not_checked_witness:
  "wf_board initial_state \<and> out_of_bounds (8, 0) \<and> out_of_bounds (8, 8)
   \<and> change_position initial_state (8, 0) ''Q'' = Inr initial_state
   \<and> update_board initial_state ((8, 0), (8, 8)) = Inl IndexError
   \<and> is_move_valid spec_support ((8, 0), (8, 8)) initial_state True = Inr False"
proof -
  have wf: "wf_board initial_state" by code_simp
  have off: "out_of_bounds (8, 0)" "out_of_bounds (8, 8)" by code_simp+
  from off_board_positions_are_not_checked[OF wf, of "(8, 0)" "''Q''" "(8, 8)" spec_support True] wf off
  show ?thesis by simp
qed

text \<open>
  C5 as stated fails: from the initial position \<^verbatim>\<open>update_board\<close> with origin row 8 ends
  in IndexError, with origin row -1 it copies the rook of row 7 without any error, and
  \<^verbatim>\<open>change_position\<close> at row 8 returns the board unchanged without any error.
\<close>

theorem off_board_read_is_unchecked:
  "out_of_bounds (8, 0) \<and> out_of_bounds (- 1, 0)
   \<and> update_board initial_state ((8, 0), (0, 0)) = Inl IndexError
   \<and> update_board initial_state ((- 1, 0), (4, 0)) =
       Inr [''rnbqkbnr'', ''pppppppp'', ''........'', ''........'',
            ''R.......'', ''........'', ''PPPPPPPP'', ''RNBQKBNR'']
   \<and> change_position initial_state (8, 0) ''Q'' = Inr initial_state"
  by code_simp

end
